theory Spec2Isabelle
  imports Main "HOL-Library.Word" "HOL-Library.Sublist"
begin

section \<open>Data model (main.go, lines 21-66)\<close>

text \<open>
  The program is the first file of \<^verbatim>\<open>src/main.go\<close> (lines 1-194), the version
  that has the cache and the deduplication. Go strings are byte sequences, as
  \<^typ>\<open>string\<close> is. A value of Go's \<^verbatim>\<open>error\<close> interface is either
  \<^verbatim>\<open>fs.ErrNotExist\<close>, the one error the program tells apart (line 70), or any
  other error, kept as its message. A run ends normally or in a panic: a
  \<^verbatim>\<open>panic(err)\<close> of the program, or one of the two run-time errors that its
  statements can raise, a slice expression out of range (line 176) and an
  assignment to an entry of a nil map (line 115).
\<close>

datatype go_error = ErrNotExist | Err string

datatype panic = Panic go_error | SliceBoundsOutOfRange | AssignmentToNilMap

text \<open>
  A Go map variable holds nil or a map. Indexing a nil map finds nothing;
  assigning to an entry of a nil map panics.
\<close>

definition map_lookup :: "('k \<rightharpoonup> 'v) option \<Rightarrow> 'k \<Rightarrow> 'v option" where
  "map_lookup m k = (case m of None \<Rightarrow> None | Some f \<Rightarrow> f k)"

definition entries :: "('k \<rightharpoonup> 'v) option \<Rightarrow> ('k \<rightharpoonup> 'v)" where
  "entries m = (case m of None \<Rightarrow> Map.empty | Some f \<Rightarrow> f)"

text \<open>
  The dynamic values that \<^verbatim>\<open>encoding/json\<close> stores in a variable of type
  \<^verbatim>\<open>any\<close>. A \<^verbatim>\<open>float64\<close> is kept as its 64-bit pattern: the program never
  computes with it.
\<close>

datatype any =
    AnyNil
  | AnyBool bool
  | AnyFloat64 "64 word"
  | AnyString string
  | AnySlice "any list"
  | AnyMap "(string \<times> any) list"

text \<open>
  The anonymous struct of the field \<^verbatim>\<open>Metadata\<close> (tag \<^verbatim>\<open>layout_meta\<close>).
  \<^verbatim>\<open>Date\<close> is an \<^verbatim>\<open>int64\<close>; a nil slice of tags and an empty one are both \<open>[]\<close>.
\<close>

record layout_meta =
  UUID :: string
  Date :: "64 word"
  Creator :: string
  ParentUUID :: string
  FirmwareAPIVersion :: string
  Title :: string
  Notes :: string
  Tags :: "string list"
  Unlisted :: bool
  Deleted :: bool
  Compiled :: bool
  Searchable :: bool

record Layout =
  Metadata :: layout_meta
  Config :: any
  CompilerInput :: any

text \<open>The value of the composite literal \<^verbatim>\<open>Layout{}\<close>: every field at its zero value.\<close>

definition Layout_zero :: Layout where
  "Layout_zero =
     \<lparr> Metadata =
         \<lparr> UUID = [], Date = 0, Creator = [], ParentUUID = [], FirmwareAPIVersion = [],
           Title = [], Notes = [], Tags = [],
           Unlisted = False, Deleted = False, Compiled = False, Searchable = False \<rparr>,
       Config = AnyNil, CompilerInput = AnyNil \<rparr>"

text \<open>\<^verbatim>\<open>fmt.Sprintf("%s-%s", l.Metadata.Title, l.Metadata.Creator)\<close> (lines 54-56).\<close>

definition SemanticHash :: "Layout \<Rightarrow> string" where
  "SemanticHash l = Title (Metadata l) @ ''-'' @ Creator (Metadata l)"

text \<open>
  \<^verbatim>\<open>AsRow\<close> (lines 58-61). \<^verbatim>\<open>l.Time().Format("1/2/06")\<close> is the standard library's
  rendering of a Unix time stamp in the local time zone; it is the parameter
  \<open>format\<close>.
\<close>

definition AsRow :: "(64 word \<Rightarrow> string) \<Rightarrow> Layout \<Rightarrow> string list" where
  "AsRow format l =
     (let date = format (Date (Metadata l))
      in [date, Title (Metadata l), Notes (Metadata l), Creator (Metadata l)])"

section \<open>Slices (line 176)\<close>

text \<open>
  A Go slice is a window on an array: \<open>slice_array\<close> holds the elements of the
  array from the first element of the slice up to its capacity, \<open>slice_len\<close> is
  the length. A \<^verbatim>\<open>range\<close> loop visits the first \<open>slice_len\<close> elements.
\<close>

record 'a slice =
  slice_array :: "'a list"
  slice_len :: nat

definition cap :: "'a slice \<Rightarrow> nat" where
  "cap s = length (slice_array s)"

definition elems :: "'a slice \<Rightarrow> 'a list" where
  "elems s = take (slice_len s) (slice_array s)"

text \<open>
  The slice expression \<^verbatim>\<open>s[low : high]\<close> on \<^verbatim>\<open>int\<close> indices (64 bits). For a
  slice the indices are in range if \<^verbatim>\<open>0 <= low <= high <= cap(s)\<close>; otherwise
  the run-time panics.
\<close>

definition slice_expr :: "'a slice \<Rightarrow> 64 word \<Rightarrow> 64 word \<Rightarrow> panic + 'a slice" where
  "slice_expr s low high =
     (if 0 \<le> sint low \<and> sint low \<le> sint high \<and> sint high \<le> int (cap s)
      then Inr \<lparr> slice_array = drop (nat (sint low)) (slice_array s),
                 slice_len = nat (sint high) - nat (sint low) \<rparr>
      else Inl SliceBoundsOutOfRange)"

section \<open>The environment: standard library, network and file system\<close>

text \<open>
  \<^verbatim>\<open>net/url\<close>, \<^verbatim>\<open>net/http\<close>, \<^verbatim>\<open>encoding/json\<close> and the operating system are
  not code of the program. They are parameters, collected in \<open>env\<close>.
\<close>

record URL =
  Scheme :: string
  Host :: string
  Path :: string
  RawQuery :: string

text \<open>A response of the server; \<open>Body\<close> is what \<^verbatim>\<open>io.ReadAll(resp.Body)\<close> returns.\<close>

datatype Response = Response (Body: "go_error + string")

text \<open>
  What \<^verbatim>\<open>json.Unmarshal\<close> finds in its input, for a target that is a struct or
  a map. It checks the syntax of the whole input first:
  \<^item> \<open>SyntaxError\<close>: the input is not valid JSON; an error is returned and the
    target is left as it was;
  \<^item> \<open>Null\<close>: the input is the JSON value \<^verbatim>\<open>null\<close>; no error is returned, a map
    becomes nil and a struct is left as it was;
  \<^item> \<open>WrongType\<close>: the input is another JSON value that is not an object; an
    error is returned and the target is left as it was;
  \<^item> \<open>TypeError a\<close>: the input is an object in which some value does not fit
    the type of its place; what fits is decoded, to \<open>a\<close>, and an error is
    returned;
  \<^item> \<open>Decoded a\<close>: the input is an object, decoded to \<open>a\<close>, and no error is
    returned.
\<close>

datatype 'a unmarshalled = SyntaxError | Null | WrongType | TypeError 'a | Decoded 'a

text \<open>
  How \<^verbatim>\<open>ioutil.WriteFile\<close> can fail: the file cannot be opened, and stays as it
  was; or the file is opened, which creates or truncates it, and the write fails
  after so many bytes.
\<close>

datatype write_fault = OpenFails string | WriteFails string nat

record env =
  url_Parse :: "string \<Rightarrow> go_error + URL"
  url_JoinPath :: "string \<Rightarrow> string list \<Rightarrow> go_error + string"
  url_String :: "URL \<Rightarrow> string"
  http_Get :: "nat \<Rightarrow> string \<Rightarrow> go_error + Response"
    \<comment> \<open>the answer to the request for a URL, given how many requests came before\<close>
  unmarshal_Layout :: "string \<Rightarrow> Layout unmarshalled"
    \<comment> \<open>the input decoded into a fresh \<^verbatim>\<open>Layout{}\<close>\<close>
  unmarshal_cache :: "string \<Rightarrow> (string \<rightharpoonup> Layout) unmarshalled"
    \<comment> \<open>the entries of the input decoded as a \<^verbatim>\<open>map[string]Layout\<close>\<close>
  marshal_cache :: "(string \<rightharpoonup> Layout) option \<Rightarrow> go_error + string"
  read_denied :: "string \<Rightarrow> string option"
    \<comment> \<open>the files that cannot be opened for reading, with the reason\<close>
  write_fault :: "string \<Rightarrow> write_fault option"
    \<comment> \<open>the files on which a write fails, with the way it fails\<close>

text \<open>
  The state of a run: the two global variables of lines 63-66, the URLs requested
  so far, and the contents of the files.
\<close>

record state =
  cache :: "(string \<rightharpoonup> Layout) option"
  cachePath :: string
  requests :: "string list"
  files :: "string \<rightharpoonup> string"

definition baseURL :: string where
  "baseURL = ''https://my.glove80.com/api/layouts/v1/''"

text \<open>
  \<^verbatim>\<open>ioutil.ReadFile\<close> returns the bytes and an error; on an error the bytes are
  nil. \<^verbatim>\<open>ioutil.WriteFile\<close> opens the file, creating or truncating it, and
  writes the bytes; a failure leaves the file untouched, empty or partly written.
\<close>

definition ioutil_ReadFile :: "env \<Rightarrow> state \<Rightarrow> string \<Rightarrow> string \<times> go_error option" where
  "ioutil_ReadFile E s name =
     (case read_denied E name of
        Some reason \<Rightarrow> ([], Some (Err reason))
      | None \<Rightarrow>
          (case files s name of
             None \<Rightarrow> ([], Some ErrNotExist)
           | Some bytes \<Rightarrow> (bytes, None)))"

definition ioutil_WriteFile :: "env \<Rightarrow> state \<Rightarrow> string \<Rightarrow> string \<Rightarrow> state \<times> go_error option" where
  "ioutil_WriteFile E s name bytes =
     (case write_fault E name of
        None \<Rightarrow> (s\<lparr>files := (files s)(name \<mapsto> bytes)\<rparr>, None)
      | Some (OpenFails reason) \<Rightarrow> (s, Some (Err reason))
      | Some (WriteFails reason n) \<Rightarrow>
          (s\<lparr>files := (files s)(name \<mapsto> take n bytes)\<rparr>, Some (Err reason)))"

definition io_ReadAll :: "Response \<Rightarrow> go_error + string" where
  "io_ReadAll resp = Body resp"

text \<open>
  \<^verbatim>\<open>json.Unmarshal(data, &v)\<close>: the error it returns and the value of \<open>v\<close>
  afterwards. Into a struct that is fresh, the value is what was decoded. Into a
  map, the decoded entries are added to the entries of the map, replacing those
  of the same keys; a nil map is made first; the input \<^verbatim>\<open>null\<close> sets the map to
  nil.
\<close>

definition json_Unmarshal_Layout :: "env \<Rightarrow> string \<Rightarrow> Layout \<Rightarrow> go_error option \<times> Layout" where
  "json_Unmarshal_Layout E bytes v =
     (case unmarshal_Layout E bytes of
        SyntaxError \<Rightarrow> (Some (Err ''json: syntax error''), v)
      | Null \<Rightarrow> (None, v)
      | WrongType \<Rightarrow> (Some (Err ''json: cannot unmarshal''), v)
      | TypeError l \<Rightarrow> (Some (Err ''json: cannot unmarshal''), l)
      | Decoded l \<Rightarrow> (None, l))"

definition json_Unmarshal_cache ::
  "env \<Rightarrow> string \<Rightarrow> (string \<rightharpoonup> Layout) option
     \<Rightarrow> go_error option \<times> (string \<rightharpoonup> Layout) option"
where
  "json_Unmarshal_cache E bytes v =
     (case unmarshal_cache E bytes of
        SyntaxError \<Rightarrow> (Some (Err ''json: syntax error''), v)
      | Null \<Rightarrow> (None, None)
      | WrongType \<Rightarrow> (Some (Err ''json: cannot unmarshal''), v)
      | TypeError m \<Rightarrow> (Some (Err ''json: cannot unmarshal''), Some (entries v ++ m))
      | Decoded m \<Rightarrow> (None, Some (entries v ++ m)))"

section \<open>The Layout Store (lines 68-89)\<close>

text \<open>
  \<^verbatim>\<open>readCache\<close>: a read error other than \<^verbatim>\<open>fs.ErrNotExist\<close> panics; then the
  bytes are unmarshalled into the global \<^verbatim>\<open>cache\<close>, and the error that
  \<^verbatim>\<open>json.Unmarshal\<close> returns is dropped (line 74).
\<close>

definition readCache :: "env \<Rightarrow> state \<Rightarrow> panic + state" where
  "readCache E s =
     (case ioutil_ReadFile E s (cachePath s) of
        (cacheBytes, err) \<Rightarrow>
          if err \<noteq> None \<and> err \<noteq> Some ErrNotExist then Inl (Panic (the err))
          else Inr (s\<lparr>cache := snd (json_Unmarshal_cache E cacheBytes (cache s))\<rparr>))"

text \<open>
  \<^verbatim>\<open>writeCache\<close>: an error of \<^verbatim>\<open>json.Marshal\<close> panics; an error of
  \<^verbatim>\<open>ioutil.WriteFile\<close> is logged and the function returns (lines 84-87).
\<close>

definition writeCache :: "env \<Rightarrow> state \<Rightarrow> panic + state" where
  "writeCache E s =
     (case marshal_cache E (cache s) of
        Inl err \<Rightarrow> Inl (Panic err)
      | Inr cacheBytes \<Rightarrow>
          (case ioutil_WriteFile E s (cachePath s) cacheBytes of
             (s', Some err) \<Rightarrow> Inr s'
           | (s', None) \<Rightarrow> Inr s'))"

text \<open>
  The next run of the program starts with the global \<^verbatim>\<open>cache\<close> a fresh empty
  map (line 64) and with no request made, on the files the last run left.
\<close>

definition restart :: "state \<Rightarrow> state" where
  "restart s = s\<lparr>cache := Some Map.empty, requests := []\<rparr>"

section \<open>The Layout Fetcher (lines 91-117)\<close>

text \<open>
  \<^verbatim>\<open>getLayout\<close>: a hit returns the cached record. A miss builds the URL, sends
  the request, reads the body and unmarshals it into a fresh \<^verbatim>\<open>Layout{}\<close>,
  dropping the error of \<^verbatim>\<open>json.Unmarshal\<close> (line 114); the assignment
  \<^verbatim>\<open>cache[uid] = result\<close> (line 115) panics when the map is nil.
\<close>

definition getLayout :: "env \<Rightarrow> string \<Rightarrow> state \<Rightarrow> panic + Layout \<times> state" where
  "getLayout E uid s =
     (case map_lookup (cache s) uid of
        Some l \<Rightarrow> Inr (l, s)
      | None \<Rightarrow>
          (case url_Parse E baseURL of
             Inl err \<Rightarrow> Inl (Panic err)
           | Inr layoutURL \<Rightarrow>
               (case url_JoinPath E (Path layoutURL) [uid, ''meta''] of
                  Inl err \<Rightarrow> Inl (Panic err)
                | Inr p \<Rightarrow>
                    let target = url_String E (layoutURL\<lparr>Path := p\<rparr>) in
                    (case http_Get E (length (requests s)) target of
                       Inl err \<Rightarrow> Inl (Panic err)
                     | Inr resp \<Rightarrow>
                         (case io_ReadAll resp of
                            Inl err \<Rightarrow> Inl (Panic err)
                          | Inr layoutBytes \<Rightarrow>
                              let result = snd (json_Unmarshal_Layout E layoutBytes Layout_zero)
                              in (case cache s of
                                    None \<Rightarrow> Inl AssignmentToNilMap
                                  | Some m \<Rightarrow>
                                      Inr (result,
                                           s\<lparr>cache := Some (m(uid \<mapsto> result)),
                                             requests := requests s @ [target]\<rparr>)))))))"

section \<open>The deduplicating part of the loop of main (lines 174-189)\<close>

text \<open>
  What one iteration does with the layout it has obtained (lines 178-188), on the
  two local variables \<^verbatim>\<open>seenLayouts\<close> (a \<^verbatim>\<open>map[string]struct{}\<close>) and
  \<^verbatim>\<open>rows\<close>. The row that is appended is \<open>asRow layout\<close>; in the program \<open>asRow\<close>
  is \<^const>\<open>AsRow\<close>.
\<close>

definition show_layout ::
  "(Layout \<Rightarrow> 'r) \<Rightarrow> bool \<Rightarrow> (string \<rightharpoonup> unit) \<times> 'r list \<Rightarrow> Layout \<Rightarrow> (string \<rightharpoonup> unit) \<times> 'r list"
where
  "show_layout asRow redupe st layout =
     (case st of (seenLayouts, rows) \<Rightarrow>
        if redupe then (seenLayouts, rows @ [asRow layout])
        else
          let hash = SemanticHash layout in
          if seenLayouts hash = None
          then (seenLayouts(hash \<mapsto> ()), rows @ [asRow layout])
          else (seenLayouts, rows))"

text \<open>
  The Deduplicator of the specification is this loop run over a sequence of
  records that are already resolved, collecting the records themselves instead of
  their rows: \<^verbatim>\<open>seenLayouts\<close> starts empty (line 174) and \<^verbatim>\<open>rows\<close> starts nil
  (line 175).
\<close>

definition Filter :: "Layout list \<Rightarrow> bool \<Rightarrow> Layout list" where
  "Filter records redupe = snd (foldl (show_layout (\<lambda>l. l) redupe) (Map.empty, []) records)"

section \<open>The loop of main (lines 174-189)\<close>

text \<open>
  The \<^verbatim>\<open>range\<close> loop over the identifiers of the window: each one is resolved by
  \<^const>\<open>getLayout\<close>, whose panic ends the run, and the layout goes through
  \<^const>\<open>show_layout\<close>.
\<close>

fun range_uids ::
  "env \<Rightarrow> (Layout \<Rightarrow> 'r) \<Rightarrow> bool \<Rightarrow> string list \<Rightarrow> state \<times> (string \<rightharpoonup> unit) \<times> 'r list
     \<Rightarrow> panic + state \<times> (string \<rightharpoonup> unit) \<times> 'r list"
where
  "range_uids E asRow redupe [] st = Inr st"
| "range_uids E asRow redupe (uid # uids) st =
     (case getLayout E uid (fst st) of
        Inl p \<Rightarrow> Inl p
      | Inr (layout, s') \<Rightarrow>
          range_uids E asRow redupe uids (s', show_layout asRow redupe (snd st) layout))"

text \<open>
  Lines 174-189: the window \<^verbatim>\<open>uids[offset : offset+limit]\<close>, where the sum wraps
  around as an \<^verbatim>\<open>int\<close> does, then the loop. The result is the state and the rows
  handed to the table.
\<close>

definition main_loop ::
  "env \<Rightarrow> (Layout \<Rightarrow> 'r) \<Rightarrow> bool \<Rightarrow> 64 word \<Rightarrow> 64 word \<Rightarrow> string slice \<Rightarrow> state
     \<Rightarrow> panic + state \<times> 'r list"
where
  "main_loop E asRow redupe offset limit uids s =
     (case slice_expr uids offset (offset + limit) of
        Inl p \<Rightarrow> Inl p
      | Inr window \<Rightarrow>
          (case range_uids E asRow redupe (elems window) (s, Map.empty, []) of
             Inl p \<Rightarrow> Inl p
           | Inr (s', seenLayouts, rows) \<Rightarrow> Inr (s', rows)))"

text \<open>
  The records that the loop obtains for a list of identifiers, in order, with the
  state after the last of them: the input of the Deduplicator.
\<close>

fun resolve_all :: "env \<Rightarrow> string list \<Rightarrow> state \<Rightarrow> panic + Layout list \<times> state" where
  "resolve_all E [] s = Inr ([], s)"
| "resolve_all E (uid # uids) s =
     (case getLayout E uid s of
        Inl p \<Rightarrow> Inl p
      | Inr (layout, s') \<Rightarrow>
          (case resolve_all E uids s' of
             Inl p \<Rightarrow> Inl p
           | Inr (layouts, s'') \<Rightarrow> Inr (layout # layouts, s'')))"

section \<open>Concrete records, environments and states\<close>

text \<open>
  The inputs at which the theorems below are evaluated. \<open>demo_env\<close> is a server
  that knows layout \<^verbatim>\<open>1\<close>, answers the request for layout \<^verbatim>\<open>2\<close> with an HTML
  page and the request for layout \<^verbatim>\<open>4\<close> with a JSON object whose date is a
  string, breaks the connection while the body of layout \<^verbatim>\<open>3\<close> is read and
  refuses every other request; its decoder knows the JSON documents that occur
  and finds a syntax error in every other input, among them the empty input and
  the HTML page.
\<close>

definition mk_layout :: "string \<Rightarrow> string \<Rightarrow> string \<Rightarrow> Layout" where
  "mk_layout uuid title creator =
     Layout_zero\<lparr>Metadata :=
       (Metadata Layout_zero)\<lparr>UUID := uuid, Title := title, Creator := creator\<rparr>\<rparr>"

definition quoted :: "string \<Rightarrow> string" where
  "quoted s = CHR 0x22 # s @ [CHR 0x22]"

definition demo_json :: "string \<Rightarrow> string \<Rightarrow> string \<Rightarrow> string" where
  "demo_json uuid title creator =
     ''{'' @ quoted ''layout_meta'' @ '':{'' @ quoted ''uuid'' @ '':'' @ quoted uuid @ '','' @
       quoted ''title'' @ '':'' @ quoted title @ '','' @
       quoted ''creator'' @ '':'' @ quoted creator @ ''}}''"

text \<open>A layout document with the title \<^verbatim>\<open>Foo\<close> and the date \<^verbatim>\<open>"soon"\<close>.\<close>

definition misdated_json :: string where
  "misdated_json =
     ''{'' @ quoted ''layout_meta'' @ '':{'' @ quoted ''title'' @ '':'' @ quoted ''Foo'' @ '','' @
       quoted ''date'' @ '':'' @ quoted ''soon'' @ ''}}''"

definition stored_bytes :: string where
  "stored_bytes = ''{'' @ quoted ''1'' @ '':'' @ demo_json ''1'' ''Foo'' ''Alice'' @ ''}''"

definition demo_env :: env where
  "demo_env =
     \<lparr> url_Parse = (\<lambda>rawURL.
         if rawURL = ''https://my.glove80.com/api/layouts/v1/''
         then Inr \<lparr> Scheme = ''https'', Host = ''my.glove80.com'',
                    Path = ''/api/layouts/v1/'', RawQuery = [] \<rparr>
         else Inl (Err ''parse'')),
       url_JoinPath = (\<lambda>base elem.
         Inr (base @ concat (map (\<lambda>e. e @ ''/'') (butlast elem)) @ last elem)),
       url_String = (\<lambda>u. Scheme u @ ''://'' @ Host u @ Path u),
       http_Get = (\<lambda>n target.
         if target = ''https://my.glove80.com/api/layouts/v1/1/meta''
         then Inr (Response (Inr (demo_json ''1'' ''Foo'' ''Alice'')))
         else if target = ''https://my.glove80.com/api/layouts/v1/2/meta''
         then Inr (Response (Inr ''<html>404</html>''))
         else if target = ''https://my.glove80.com/api/layouts/v1/3/meta''
         then Inr (Response (Inl (Err ''unexpected EOF'')))
         else if target = ''https://my.glove80.com/api/layouts/v1/4/meta''
         then Inr (Response (Inr misdated_json))
         else Inl (Err ''no such host'')),
       unmarshal_Layout = (\<lambda>bytes.
         if bytes = demo_json ''1'' ''Foo'' ''Alice''
         then Decoded (mk_layout ''1'' ''Foo'' ''Alice'')
         else if bytes = misdated_json then TypeError (mk_layout [] ''Foo'' [])
         else if bytes = ''null'' then Null
         else SyntaxError),
       unmarshal_cache = (\<lambda>bytes.
         if bytes = ''{}'' then Decoded Map.empty
         else if bytes = stored_bytes
         then Decoded [''1'' \<mapsto> mk_layout ''1'' ''Foo'' ''Alice'']
         else if bytes = ''null'' then Null
         else SyntaxError),
       marshal_cache = (\<lambda>c.
         case c of
           None \<Rightarrow> Inr ''null''
         | Some m \<Rightarrow>
             (case m ''1'' of
                None \<Rightarrow> Inr ''{}''
              | Some l \<Rightarrow>
                  Inr (''{'' @ quoted ''1'' @ '':'' @
                       demo_json (UUID (Metadata l)) (Title (Metadata l)) (Creator (Metadata l)) @
                       ''}''))),
       read_denied = (\<lambda>name. None),
       write_fault = (\<lambda>name. None) \<rparr>"

text \<open>The start of a first run: nothing cached, no cache file.\<close>

definition demo_state :: state where
  "demo_state =
     \<lparr> cache = Some Map.empty, cachePath = ''/home/u/.cache/g80-layouts-cache.json'',
       requests = [], files = Map.empty \<rparr>"

text \<open>
  A run whose cache file held \<^verbatim>\<open>null\<close>, after \<^verbatim>\<open>readCache\<close>, and a start on a
  damaged cache file.
\<close>

definition nil_state :: state where
  "nil_state =
     demo_state\<lparr>cache := None,
                files := [''/home/u/.cache/g80-layouts-cache.json'' \<mapsto> ''null'']\<rparr>"

definition corrupt_state :: state where
  "corrupt_state =
     demo_state\<lparr>files := [''/home/u/.cache/g80-layouts-cache.json'' \<mapsto> ''{oops'']\<rparr>"

section \<open>The Deduplicator\<close>

lemma show_layout_pair:
  "show_layout asRow redupe (seen, rows) l =
     (if redupe then (seen, rows @ [asRow l])
      else if seen (SemanticHash l) = None
           then (seen(SemanticHash l \<mapsto> ()), rows @ [asRow l])
           else (seen, rows))"
  by (simp add: show_layout_def)

lemma Filter_Nil: "Filter [] redupe = []"
  by (simp add: Filter_def)

text \<open>
  Claim C7. With \<open>redupe = true\<close> the Deduplicator returns its input unchanged.
\<close>

theorem Filter_redupe_identity: "Filter records True = records"
proof -
  have "foldl (show_layout (\<lambda>l. l) True) (seen, rows) records = (seen, rows @ records)"
    for seen :: "string \<rightharpoonup> unit" and rows
    by (induction records arbitrary: rows) (simp_all add: show_layout_pair)
  then show ?thesis by (simp add: Filter_def)
qed

text \<open>
  The invariant of the loop: the keys of \<^verbatim>\<open>seenLayouts\<close> are the hashes of the
  records emitted so far.
\<close>

lemma dedup_seen_rows:
  "dom (fst (foldl (show_layout (\<lambda>l. l) False) (Map.empty, []) records)) =
   SemanticHash ` set (snd (foldl (show_layout (\<lambda>l. l) False) (Map.empty, []) records))"
proof (induction records rule: rev_induct)
  case Nil
  show ?case by simp
next
  case (snoc x xs)
  obtain seen rows
    where st: "foldl (show_layout (\<lambda>l. l) False) (Map.empty, []) xs = (seen, rows)"
    by (cases "foldl (show_layout (\<lambda>l. l) False) (Map.empty, []) xs")
  with snoc have "dom seen = SemanticHash ` set rows" by simp
  then show ?case
    by (auto simp: st show_layout_pair)
qed

lemma Filter_snoc:
  "Filter (records @ [r]) False =
     Filter records False @
       (if \<exists>e \<in> set (Filter records False). SemanticHash e = SemanticHash r then [] else [r])"
proof -
  obtain seen rows
    where st: "foldl (show_layout (\<lambda>l. l) False) (Map.empty, []) records = (seen, rows)"
    by (cases "foldl (show_layout (\<lambda>l. l) False) (Map.empty, []) records")
  have "dom seen = SemanticHash ` set rows"
    using dedup_seen_rows [of records] by (simp add: st)
  then have "seen (SemanticHash r) = None \<longleftrightarrow>
      \<not> (\<exists>e \<in> set rows. SemanticHash e = SemanticHash r)"
    by (metis domIff image_iff)
  then show ?thesis
    by (simp add: Filter_def st show_layout_pair)
qed

lemma Filter_subseq: "subseq (Filter records False) records"
proof (induction records rule: rev_induct)
  case Nil
  show ?case by (simp add: Filter_Nil)
next
  case (snoc x xs)
  then show ?case
    by (auto simp: Filter_snoc intro: list_emb_append_mono list_emb_append2)
qed

lemma Filter_distinct_hash: "distinct (map SemanticHash (Filter records False))"
proof (induction records rule: rev_induct)
  case Nil
  show ?case by (simp add: Filter_Nil)
next
  case (snoc x xs)
  then show ?case
    by (auto simp: Filter_snoc)
qed

lemma distinct_map_factor: "distinct (map (\<lambda>x. g (f x)) xs) \<Longrightarrow> distinct (map f xs)"
  by (induction xs) auto

lemma Filter_distinct_pairs:
  "distinct (map (\<lambda>l. (Title (Metadata l), Creator (Metadata l))) (Filter records False))"
proof -
  have "SemanticHash =
      (\<lambda>l. (\<lambda>p. fst p @ ''-'' @ snd p) (Title (Metadata l), Creator (Metadata l)))"
    by (rule ext) (simp add: SemanticHash_def)
  then have "distinct
      (map (\<lambda>l. (\<lambda>p. fst p @ ''-'' @ snd p) (Title (Metadata l), Creator (Metadata l)))
        (Filter records False))"
    using Filter_distinct_hash [of records] by metis
  then show ?thesis by (rule distinct_map_factor)
qed

lemma Filter_fixed:
  "distinct (map SemanticHash records) \<Longrightarrow> Filter records False = records"
proof (induction records rule: rev_induct)
  case Nil
  show ?case by (simp add: Filter_Nil)
next
  case (snoc x xs)
  from snoc.prems have d: "distinct (map SemanticHash xs)"
    and n: "SemanticHash x \<notin> SemanticHash ` set xs"
    by simp_all
  from snoc.IH d have fx: "Filter xs False = xs" .
  from n have "\<not> (\<exists>e \<in> set xs. SemanticHash e = SemanticHash x)"
    by (simp add: image_iff) metis
  then show ?case
    by (simp add: Filter_snoc fx)
qed

text \<open>
  Every record of the input whose semantic key is new is emitted, in the order of
  the input, and the output has no two records with equal (title, creator)
  pairs; here the key is the one the program computes, \<^const>\<open>SemanticHash\<close>.
\<close>

lemma Filter_emits_new_keys:
  "Filter [] False = [] \<and>
   Filter (records @ [r]) False =
     Filter records False @
       (if \<exists>e \<in> set (Filter records False). SemanticHash e = SemanticHash r
        then [] else [r]) \<and>
   subseq (Filter records False) records \<and>
   distinct (map (\<lambda>l. (Title (Metadata l), Creator (Metadata l))) (Filter records False))"
  by (simp only: Filter_Nil Filter_snoc [symmetric] Filter_subseq Filter_distinct_pairs simp_thms)

text \<open>
  Claim C2. The claim is that with \<open>redupe = false\<close> a record is emitted if and
  only if no record emitted before it has an equal semantic key, the pair
  (title, creator). The program drops every record it should drop, and it also
  drops records it should emit: after the record with title \<open>Work-Home\<close> and
  creator \<open>bob\<close>, which is emitted, the record with title \<open>Work\<close> and creator
  \<open>Home-bob\<close> has another (title, creator) pair than every record emitted so
  far, and is dropped.
\<close>

theorem Filter_drops_new_pair:
  "Filter [mk_layout ''1'' ''Work-Home'' ''bob''] False = [mk_layout ''1'' ''Work-Home'' ''bob''] \<and>
   (Title (Metadata (mk_layout ''2'' ''Work'' ''Home-bob'')),
    Creator (Metadata (mk_layout ''2'' ''Work'' ''Home-bob''))) \<noteq>
   (Title (Metadata (mk_layout ''1'' ''Work-Home'' ''bob'')),
    Creator (Metadata (mk_layout ''1'' ''Work-Home'' ''bob''))) \<and>
   Filter [mk_layout ''1'' ''Work-Home'' ''bob'', mk_layout ''2'' ''Work'' ''Home-bob''] False =
     [mk_layout ''1'' ''Work-Home'' ''bob'']"
  by (simp add: Filter_def show_layout_pair SemanticHash_def mk_layout_def)

text \<open>
  Claim C8. With \<open>redupe = false\<close> the Deduplicator is idempotent: applied to its
  own output it returns that output.
\<close>

theorem Filter_idempotent: "Filter (Filter records False) False = Filter records False"
  by (rule Filter_fixed) (rule Filter_distinct_hash)

text \<open>
  Claim C9. The semantic key is the one string \<open>title @ ''-'' @ creator\<close>, not the
  pair. The record with title \<open>a-b\<close> and creator \<open>c\<close> and the record with title
  \<open>a\<close> and creator \<open>b-c\<close> have different (title, creator) pairs and the same key,
  and the second is dropped after the first.
\<close>

theorem SemanticHash_collision:
  "SemanticHash l = Title (Metadata l) @ ''-'' @ Creator (Metadata l) \<and>
   (Title (Metadata (mk_layout ''1'' ''a-b'' ''c'')), Creator (Metadata (mk_layout ''1'' ''a-b'' ''c''))) \<noteq>
   (Title (Metadata (mk_layout ''2'' ''a'' ''b-c'')), Creator (Metadata (mk_layout ''2'' ''a'' ''b-c''))) \<and>
   SemanticHash (mk_layout ''1'' ''a-b'' ''c'') = SemanticHash (mk_layout ''2'' ''a'' ''b-c'') \<and>
   Filter [mk_layout ''1'' ''a-b'' ''c'', mk_layout ''2'' ''a'' ''b-c''] False =
     [mk_layout ''1'' ''a-b'' ''c'']"
  by (simp add: Filter_def show_layout_pair SemanticHash_def mk_layout_def)

section \<open>The loop of main and the Deduplicator\<close>

text \<open>
  The loop of \<^verbatim>\<open>main\<close> resolves the identifiers one after the other and shows
  the rows of what the Deduplicator keeps of the resolved records; a panic of
  \<^const>\<open>getLayout\<close> ends it.
\<close>

lemma range_uids_resolve:
  "range_uids E asRow redupe uids (s, loc) =
     (case resolve_all E uids s of
        Inl p \<Rightarrow> Inl p
      | Inr (layouts, s') \<Rightarrow> Inr (s', foldl (show_layout asRow redupe) loc layouts))"
  by (induction uids arbitrary: s loc) (auto split: sum.splits)

lemma show_layout_rows:
  "show_layout asRow redupe (seen, map asRow rows) l =
     (case show_layout (\<lambda>l. l) redupe (seen, rows) l of
        (seen', rows') \<Rightarrow> (seen', map asRow rows'))"
  by (simp add: show_layout_def Let_def)

lemma foldl_show_layout_rows:
  "foldl (show_layout asRow redupe) (seen, map asRow rows) layouts =
     (case foldl (show_layout (\<lambda>l. l) redupe) (seen, rows) layouts of
        (seen', rows') \<Rightarrow> (seen', map asRow rows'))"
proof (induction layouts arbitrary: seen rows)
  case Nil
  show ?case by simp
next
  case (Cons l ls)
  obtain seen1 rows1 where st: "show_layout (\<lambda>l. l) redupe (seen, rows) l = (seen1, rows1)"
    by (cases "show_layout (\<lambda>l. l) redupe (seen, rows) l")
  show ?case
    by (simp add: show_layout_rows st Cons.IH)
qed

lemma main_loop_Filter:
  "main_loop E asRow redupe offset limit uids s =
     (case slice_expr uids offset (offset + limit) of
        Inl p \<Rightarrow> Inl p
      | Inr window \<Rightarrow>
          (case resolve_all E (elems window) s of
             Inl p \<Rightarrow> Inl p
           | Inr (layouts, s') \<Rightarrow> Inr (s', map asRow (Filter layouts redupe))))"
proof -
  have "rows = map asRow (Filter layouts redupe)"
    if "foldl (show_layout asRow redupe) (Map.empty, []) layouts = (seen, rows)"
    for layouts seen rows
    using foldl_show_layout_rows [of asRow redupe Map.empty "[]" layouts] that
    by (simp add: Filter_def split: prod.splits)
  then show ?thesis
    by (auto simp: main_loop_def range_uids_resolve split: sum.splits prod.splits)
qed

section \<open>The selection window\<close>

lemma sint_add_in_range:
  fixes a b :: "64 word"
  assumes "0 \<le> sint a" and "0 \<le> sint b" and "sint a + sint b < 2 ^ 63"
  shows "sint (a + b) = sint a + sint b"
proof -
  have "signed_take_bit 63 (sint a + sint b) = sint a + sint b"
    using assms by (intro signed_take_bit_int_eq_self) simp_all
  then show ?thesis by (simp add: sint_word_add)
qed

text \<open>
  Where \<open>offset + limit\<close> stays within the length of the list, the window skips
  \<open>offset\<close> identifiers and takes \<open>limit\<close>.
\<close>

lemma window_in_range:
  assumes "0 \<le> sint offset" and "0 \<le> sint limit"
    and "sint offset + sint limit \<le> int (slice_len uids)" and "slice_len uids \<le> cap uids"
    and "cap uids < 2 ^ 63"
  shows "\<exists>w. slice_expr uids offset (offset + limit) = Inr w \<and>
             elems w = take (nat (sint limit)) (drop (nat (sint offset)) (elems uids))"
proof -
  define n m where "n = nat (sint offset)" and "m = nat (sint limit)"
  have sum: "sint (offset + limit) = sint offset + sint limit"
    using assms by (intro sint_add_in_range) simp_all
  have nm: "nat (sint offset + sint limit) = n + m"
    using assms by (simp add: n_def m_def nat_add_distrib)
  have le: "n + m \<le> slice_len uids"
    using assms nm by linarith
  have "take m (drop n (slice_array uids)) =
      take m (drop n (take (slice_len uids) (slice_array uids)))"
    using le by (simp add: drop_take min_def)
  then have "elems \<lparr>slice_array = drop n (slice_array uids), slice_len = n + m - n\<rparr> =
      take m (drop n (elems uids))"
    by (simp add: elems_def)
  moreover have "slice_expr uids offset (offset + limit) =
      Inr \<lparr>slice_array = drop n (slice_array uids), slice_len = n + m - n\<rparr>"
    using assms le by (simp add: slice_expr_def sum nm) (simp add: n_def)
  ultimately show ?thesis
    by (simp add: n_def m_def)
qed

text \<open>Past the capacity of the list the slice expression panics, whatever the list holds.\<close>

lemma window_out_of_range:
  "int (cap uids) < sint (offset + limit) \<Longrightarrow>
     main_loop E asRow redupe offset limit uids s = Inl SliceBoundsOutOfRange"
  by (simp add: main_loop_def slice_expr_def)

text \<open>
  Claim C1. The claim is that the window skips \<open>offset\<close> identifiers, takes at most
  \<open>limit\<close> of the rest and never panics. The program slices
  \<^verbatim>\<open>uids[offset : offset+limit]\<close> as it is: for a list of three identifiers, which
  the decoder leaves with capacity four, and the default \<open>offset = 0\<close> and
  \<open>limit = 10\<close>, the run panics before any layout is resolved.
\<close>

theorem window_short_list_panics:
  "main_loop E asRow redupe 0 10 \<lparr>slice_array = [''a'', ''b'', ''c'', []], slice_len = 3\<rparr> s =
     Inl SliceBoundsOutOfRange"
  by (simp add: main_loop_def slice_expr_def cap_def)

section \<open>The Layout Fetcher\<close>


text \<open>The record that \<^verbatim>\<open>json.Unmarshal\<close> leaves in its target.\<close>

lemma json_Unmarshal_Layout_value:
  "snd (json_Unmarshal_Layout E bytes v) =
     (case unmarshal_Layout E bytes of
        SyntaxError \<Rightarrow> v | Null \<Rightarrow> v | WrongType \<Rightarrow> v
      | TypeError l \<Rightarrow> l | Decoded l \<Rightarrow> l)"
  by (simp add: json_Unmarshal_Layout_def split: unmarshalled.splits)

text \<open>
  A miss whose body was read returns, whatever the decoder finds, unless the map
  is nil.
\<close>

lemma getLayout_body_read:
  assumes "cache s = Some m" and "m uid = None"
    and "url_Parse E baseURL = Inr u"
    and "url_JoinPath E (Path u) [uid, ''meta''] = Inr p"
    and "http_Get E (length (requests s)) (url_String E (u\<lparr>Path := p\<rparr>)) = Inr resp"
    and "io_ReadAll resp = Inr bytes"
  shows "getLayout E uid s =
           Inr (snd (json_Unmarshal_Layout E bytes Layout_zero),
                s\<lparr>cache := Some (m(uid \<mapsto> snd (json_Unmarshal_Layout E bytes Layout_zero))),
                  requests := requests s @ [url_String E (u\<lparr>Path := p\<rparr>)]\<rparr>)"
  using assms by (simp add: getLayout_def map_lookup_def Let_def)

lemma getLayout_nil_map:
  assumes "cache s = None"
    and "url_Parse E baseURL = Inr u"
    and "url_JoinPath E (Path u) [uid, ''meta''] = Inr p"
    and "http_Get E (length (requests s)) (url_String E (u\<lparr>Path := p\<rparr>)) = Inr resp"
    and "io_ReadAll resp = Inr bytes"
  shows "getLayout E uid s = Inl AssignmentToNilMap"
  using assms by (simp add: getLayout_def map_lookup_def Let_def)





text \<open>The two transport errors of a miss end the run.\<close>

lemma getLayout_Get_error:
  assumes "map_lookup (cache s) uid = None"
    and "url_Parse E baseURL = Inr u"
    and "url_JoinPath E (Path u) [uid, ''meta''] = Inr p"
    and "http_Get E (length (requests s)) (url_String E (u\<lparr>Path := p\<rparr>)) = Inl err"
  shows "getLayout E uid s = Inl (Panic err)"
  using assms by (simp add: getLayout_def)

lemma getLayout_ReadAll_error:
  assumes "map_lookup (cache s) uid = None"
    and "url_Parse E baseURL = Inr u"
    and "url_JoinPath E (Path u) [uid, ''meta''] = Inr p"
    and "http_Get E (length (requests s)) (url_String E (u\<lparr>Path := p\<rparr>)) = Inr resp"
    and "io_ReadAll resp = Inl err"
  shows "getLayout E uid s = Inl (Panic err)"
  using assms by (simp add: getLayout_def)

lemma getLayout_panic_ends_loop:
  "getLayout E uid (fst st) = Inl p \<Longrightarrow> range_uids E asRow redupe (uid # uids) st = Inl p"
  by simp

text \<open>
  Claim C3. The claim is that every transport error and every parse error of a
  miss aborts the run. The transport errors do. A parse error does not: the
  server answers the request for layout \<^verbatim>\<open>2\<close> with an HTML page, in which
  \<^verbatim>\<open>json.Unmarshal\<close> finds a syntax error; the loop goes on with the zero record,
  shows its empty row, and resolves and shows layout \<^verbatim>\<open>1\<close> after it.
\<close>

theorem parse_error_not_fatal:
  "fst (json_Unmarshal_Layout demo_env ''<html>404</html>'' Layout_zero) =
     Some (Err ''json: syntax error'') \<and>
   main_loop demo_env (AsRow format) False 0 2
       \<lparr>slice_array = [''2'', ''1''], slice_len = 2\<rparr> demo_state =
     Inr (demo_state\<lparr>cache := Some [''2'' \<mapsto> Layout_zero, ''1'' \<mapsto> mk_layout ''1'' ''Foo'' ''Alice''],
                     requests := [''https://my.glove80.com/api/layouts/v1/2/meta'',
                                  ''https://my.glove80.com/api/layouts/v1/1/meta'']\<rparr>,
          [[format 0, [], [], []], [format 0, ''Foo'', [], ''Alice'']])"
  by (simp add: main_loop_def slice_expr_def cap_def elems_def getLayout_def map_lookup_def
        demo_env_def demo_state_def baseURL_def io_ReadAll_def json_Unmarshal_Layout_def Let_def
        show_layout_def SemanticHash_def AsRow_def demo_json_def misdated_json_def quoted_def
        mk_layout_def Layout_zero_def)

text \<open>
  Claim C10, as stated: on a miss whose body is not valid JSON for a layout
  record the resolver does not abort, and stores and returns the zero-valued
  record. Two inputs refute it. The body of layout \<^verbatim>\<open>4\<close> is a JSON object that is
  not valid for a layout record, its date being a string: \<^verbatim>\<open>json.Unmarshal\<close>
  returns an error and has decoded the title, and the record stored and
  returned is not the zero-valued one. And in a run whose cache file held
  \<^verbatim>\<open>null\<close> the map is nil after \<^verbatim>\<open>readCache\<close>: on the HTML body of layout \<^verbatim>\<open>2\<close>
  the resolver aborts, at the assignment of line 115.
\<close>

theorem zero_record_refuted:
  "fst (json_Unmarshal_Layout demo_env misdated_json Layout_zero) =
     Some (Err ''json: cannot unmarshal'') \<and>
   getLayout demo_env ''4'' demo_state =
     Inr (mk_layout [] ''Foo'' [],
          demo_state\<lparr>cache := Some [''4'' \<mapsto> mk_layout [] ''Foo'' []],
                     requests := [''https://my.glove80.com/api/layouts/v1/4/meta'']\<rparr>) \<and>
   mk_layout [] ''Foo'' [] \<noteq> Layout_zero \<and>
   readCache demo_env (restart nil_state) = Inr nil_state \<and>
   getLayout demo_env ''2'' nil_state = Inl AssignmentToNilMap"
  by (simp add: getLayout_def map_lookup_def readCache_def restart_def ioutil_ReadFile_def
        json_Unmarshal_cache_def demo_env_def demo_state_def nil_state_def baseURL_def
        io_ReadAll_def json_Unmarshal_Layout_def Let_def demo_json_def misdated_json_def
        stored_bytes_def quoted_def mk_layout_def Layout_zero_def)

text \<open>
  Claim C10, amended. On a miss whose body is read, in a run whose Store is not
  the nil map, the resolver does not abort, whatever \<^verbatim>\<open>json.Unmarshal\<close> finds in
  the body: it stores under the requested identifier the record that
  \<^verbatim>\<open>json.Unmarshal\<close> left in the fresh \<^verbatim>\<open>Layout{}\<close>, and returns that record.
  The record is the zero-valued one when the body is not valid JSON or is not a
  JSON object; when the body is a JSON object that does not fit a layout record,
  it is what was decoded of it.
\<close>

theorem getLayout_stores_what_was_decoded:
  assumes "cache s = Some m" and "m uid = None"
    and "url_Parse E baseURL = Inr u"
    and "url_JoinPath E (Path u) [uid, ''meta''] = Inr p"
    and "http_Get E (length (requests s)) (url_String E (u\<lparr>Path := p\<rparr>)) = Inr resp"
    and "io_ReadAll resp = Inr bytes"
  shows "\<exists>r. getLayout E uid s =
                Inr (r, s\<lparr>cache := Some (m(uid \<mapsto> r)),
                          requests := requests s @ [url_String E (u\<lparr>Path := p\<rparr>)]\<rparr>) \<and>
              r = (case unmarshal_Layout E bytes of
                     SyntaxError \<Rightarrow> Layout_zero | Null \<Rightarrow> Layout_zero
                   | WrongType \<Rightarrow> Layout_zero
                   | TypeError d \<Rightarrow> d | Decoded d \<Rightarrow> d)"
  using getLayout_body_read [OF assms]
  by (simp add: json_Unmarshal_Layout_value)

theorem getLayout_stores_what_was_decoded_witness:
  "unmarshal_Layout demo_env ''<html>404</html>'' = SyntaxError \<and>
   getLayout demo_env ''2'' demo_state =
     Inr (Layout_zero,
          demo_state\<lparr>cache := Some [''2'' \<mapsto> Layout_zero],
                     requests := [''https://my.glove80.com/api/layouts/v1/2/meta'']\<rparr>)"
proof -
  have h1: "cache demo_state = Some Map.empty"
    by (simp add: demo_state_def)
  have h2: "Map.empty ''2'' = (None :: Layout option)"
    by simp
  have h3: "url_Parse demo_env baseURL =
      Inr \<lparr>Scheme = ''https'', Host = ''my.glove80.com'', Path = ''/api/layouts/v1/'',
           RawQuery = []\<rparr>"
    by (simp add: demo_env_def baseURL_def)
  have h4: "url_JoinPath demo_env
      (Path \<lparr>Scheme = ''https'', Host = ''my.glove80.com'', Path = ''/api/layouts/v1/'',
             RawQuery = []\<rparr>) [''2'', ''meta''] = Inr ''/api/layouts/v1/2/meta''"
    by (simp add: demo_env_def)
  have h5: "http_Get demo_env (length (requests demo_state))
      (url_String demo_env
        (\<lparr>Scheme = ''https'', Host = ''my.glove80.com'', Path = ''/api/layouts/v1/'',
          RawQuery = []\<rparr>\<lparr>Path := ''/api/layouts/v1/2/meta''\<rparr>)) =
      Inr (Response (Inr ''<html>404</html>''))"
    by (simp add: demo_env_def)
  have h6: "io_ReadAll (Response (Inr ''<html>404</html>'')) = Inr ''<html>404</html>''"
    by (simp add: io_ReadAll_def)
  have h7: "unmarshal_Layout demo_env ''<html>404</html>'' = SyntaxError"
    by (simp add: demo_env_def demo_json_def misdated_json_def quoted_def)
  from getLayout_stores_what_was_decoded [OF h1 h2 h3 h4 h5 h6] h7
  have "getLayout demo_env ''2'' demo_state =
     Inr (Layout_zero,
          demo_state\<lparr>cache := Some [''2'' \<mapsto> Layout_zero],
                     requests := [''https://my.glove80.com/api/layouts/v1/2/meta'']\<rparr>)"
    by (simp add: demo_env_def demo_state_def)
  with h7 show ?thesis by simp
qed

section \<open>The Layout Store\<close>

text \<open>A cache file that does not exist leaves the Store as it is: empty at the start of a run.\<close>

lemma readCache_missing:
  assumes "read_denied E (cachePath s) = None" and "files s (cachePath s) = None"
    and "unmarshal_cache E [] = SyntaxError"
  shows "readCache E s = Inr s"
  using assms by (simp add: readCache_def ioutil_ReadFile_def json_Unmarshal_cache_def)

text \<open>A cache file that cannot be read ends the run.\<close>

lemma readCache_denied:
  assumes "read_denied E (cachePath s) = Some reason"
  shows "readCache E s = Inl (Panic (Err reason))"
  using assms by (simp add: readCache_def ioutil_ReadFile_def)

text \<open>A cache file that is read never does, whatever it holds.\<close>

lemma readCache_read:
  assumes "read_denied E (cachePath s) = None" and "files s (cachePath s) = Some bytes"
  shows "readCache E s = Inr (s\<lparr>cache := snd (json_Unmarshal_cache E bytes (cache s))\<rparr>)"
  using assms by (simp add: readCache_def ioutil_ReadFile_def)

text \<open>
  Claim C4. The claim is that a path that does not exist yields an empty Store
  and that a file that exists and cannot be parsed aborts the process. The
  program does the first. It does not do the second: on the cache file
  \<^verbatim>\<open>{oops\<close>, in which \<^verbatim>\<open>json.Unmarshal\<close> finds a syntax error, \<^verbatim>\<open>readCache\<close>
  returns and the run goes on with the empty Store.
\<close>

theorem readCache_corrupt_file:
  "files corrupt_state (cachePath corrupt_state) = Some ''{oops'' \<and>
   fst (json_Unmarshal_cache demo_env ''{oops'' (cache corrupt_state)) =
     Some (Err ''json: syntax error'') \<and>
   readCache demo_env corrupt_state = Inr corrupt_state \<and>
   cache corrupt_state = Some Map.empty"
  by (simp add: readCache_def demo_env_def demo_state_def corrupt_state_def
        ioutil_ReadFile_def json_Unmarshal_cache_def stored_bytes_def quoted_def)

text \<open>
  \<^verbatim>\<open>writeCache\<close> returns normally whenever \<^verbatim>\<open>json.Marshal\<close> does; what it leaves
  in the cache file depends on how the write goes.
\<close>

lemma writeCache_written:
  assumes "marshal_cache E (cache s) = Inr bytes" and "write_fault E (cachePath s) = None"
  shows "writeCache E s = Inr (s\<lparr>files := (files s)(cachePath s \<mapsto> bytes)\<rparr>)"
  using assms by (simp add: writeCache_def ioutil_WriteFile_def)

lemma writeCache_open_fails:
  assumes "marshal_cache E (cache s) = Inr bytes"
    and "write_fault E (cachePath s) = Some (OpenFails reason)"
  shows "writeCache E s = Inr s"
  using assms by (simp add: writeCache_def ioutil_WriteFile_def)

lemma writeCache_write_fails:
  assumes "marshal_cache E (cache s) = Inr bytes"
    and "write_fault E (cachePath s) = Some (WriteFails reason n)"
  shows "writeCache E s = Inr (s\<lparr>files := (files s)(cachePath s \<mapsto> take n bytes)\<rparr>)"
  using assms by (simp add: writeCache_def ioutil_WriteFile_def)

lemma writeCache_Marshal_error:
  assumes "marshal_cache E (cache s) = Inl err"
  shows "writeCache E s = Inl (Panic err)"
  using assms by (simp add: writeCache_def)

text \<open>
  After a Save whose write succeeds, the next run loads what \<^verbatim>\<open>json.Unmarshal\<close>
  decodes, into the fresh empty map, from the bytes \<^verbatim>\<open>json.Marshal\<close> produced.
\<close>

lemma readCache_after_writeCache:
  assumes "marshal_cache E (cache s) = Inr bytes"
    and "write_fault E (cachePath s) = None"
    and "read_denied E (cachePath s) = None"
  shows "writeCache E s = Inr (s\<lparr>files := (files s)(cachePath s \<mapsto> bytes)\<rparr>) \<and>
         readCache E (restart (s\<lparr>files := (files s)(cachePath s \<mapsto> bytes)\<rparr>)) =
           Inr ((restart (s\<lparr>files := (files s)(cachePath s \<mapsto> bytes)\<rparr>))
                  \<lparr>cache := snd (json_Unmarshal_cache E bytes (Some Map.empty))\<rparr>)"
  using assms
  by (simp add: writeCache_def readCache_def restart_def ioutil_ReadFile_def
        ioutil_WriteFile_def)

end
